theory Spec2Isabelle
  imports Main "HOL-Library.Word"
begin

section \<open>JSON documents as Go's encoding/json reads them\<close>

text \<open>
  The two commands of PaperCrypt modelled here, \<open>qr\<close> and \<open>generate\<close>, hand their input
  to Go's \<open>encoding/json\<close>. The library first scans the text for well-formedness and
  then walks the syntax tree, so the model starts from the tree: an input is a
  \<open>json option\<close>, \<open>None\<close> for bytes that are not one well-formed JSON text.
  Object members are kept in source order and with duplicates, because the decoder
  visits every member in order. Numbers keep their literal text.
\<close>

datatype json =
    JNull
  | JBool bool
  | JNumber string
  | JString string
  | JArray "json list"
  | JObject "(string \<times> json) list"

text \<open>
  A struct field is matched to an object key by exact name or by folded name.
  Folding upper-cases ASCII letters and sends every rune to the smallest rune of its
  simple case-folding orbit; the only non-ASCII runes whose orbit contains an ASCII
  letter are U+017F (long s, UTF-8 \<open>C5 BF\<close>) and U+212A (Kelvin sign, UTF-8
  \<open>E2 84 AA\<close>). All other bytes above 127 stay as they are, which is exact for a
  comparison with an ASCII field name.
\<close>

definition upperASCII :: "char \<Rightarrow> char" where
  "upperASCII c =
     (let n = (of_char c :: nat) in if 97 \<le> n \<and> n \<le> 122 then char_of (n - 32) else c)"

fun foldName :: "string \<Rightarrow> string" where
  "foldName [] = []"
| "foldName (c # cs) =
     (if c = CHR 0xC5 \<and> take 1 cs = [CHR 0xBF] then CHR ''S'' # foldName (drop 1 cs)
      else if c = CHR 0xE2 \<and> take 2 cs = [CHR 0x84, CHR 0xAA] then CHR ''K'' # foldName (drop 2 cs)
      else upperASCII c # foldName cs)"

definition matches :: "string \<Rightarrow> string \<Rightarrow> bool" where
  "matches name key = (key = name \<or> foldName key = foldName name)"

text \<open>
  Decoding the members of an object into a struct whose only field is a string named
  \<open>name\<close>: every matching member is decoded in order. A string sets the field, \<open>null\<close>
  leaves it alone, any other value records an UnmarshalTypeError and decoding goes on
  with the next member. The pair is the field's value and whether no error has been
  recorded.
\<close>

fun decodeStringField :: "string \<Rightarrow> (string \<times> json) list \<Rightarrow> string \<Rightarrow> bool \<Rightarrow> string \<times> bool" where
  "decodeStringField name [] cur ok = (cur, ok)"
| "decodeStringField name ((k, v) # ms) cur ok =
     (if matches name k then
        (case v of
           JString s \<Rightarrow> decodeStringField name ms s ok
         | JNull \<Rightarrow> decodeStringField name ms cur ok
         | _ \<Rightarrow> decodeStringField name ms cur False)
      else decodeStringField name ms cur ok)"

text \<open>
  The same for a struct whose only field, named \<open>name\<close>, is itself a struct with one
  string field \<open>inner\<close>: an object value is decoded into the nested struct, \<open>null\<close> is
  skipped, anything else is a type error.
\<close>

fun decodeStructField :: "string \<Rightarrow> string \<Rightarrow> (string \<times> json) list \<Rightarrow> string \<Rightarrow> bool \<Rightarrow> string \<times> bool" where
  "decodeStructField name inner [] cur ok = (cur, ok)"
| "decodeStructField name inner ((k, v) # ms) cur ok =
     (if matches name k then
        (case v of
           JObject ns \<Rightarrow>
             (case decodeStringField inner ns cur ok of
                (cur', ok') \<Rightarrow> decodeStructField name inner ms cur' ok')
         | JNull \<Rightarrow> decodeStructField name inner ms cur ok
         | _ \<Rightarrow> decodeStructField name inner ms cur False)
      else decodeStructField name inner ms cur ok)"

section \<open>The qr command\<close>

subsection \<open>The three containers of the version sniffer\<close>

record versionContainer =
  Version :: string

record dataContainer =
  Data :: string

record dataContainerV1 =
  DataV1 :: dataContainer

text \<open>
  \<open>json.Unmarshal(data, &vc)\<close> and its two siblings. \<open>None\<close> is a non-nil error:
  a syntax error, a top-level value that is neither an object nor \<open>null\<close>, or a
  recorded type error. A top-level \<open>null\<close> leaves the struct at its zero value and is
  no error; so is an object in which the field does not occur.
\<close>

definition unmarshalVersionContainer :: "json option \<Rightarrow> versionContainer option" where
  "unmarshalVersionContainer data =
     (case data of
        None \<Rightarrow> None
      | Some JNull \<Rightarrow> Some \<lparr>Version = []\<rparr>
      | Some (JObject ms) \<Rightarrow>
          (case decodeStringField ''Version'' ms [] True of
             (s, ok) \<Rightarrow> if ok then Some \<lparr>Version = s\<rparr> else None)
      | Some _ \<Rightarrow> None)"

definition unmarshalDataContainer :: "json option \<Rightarrow> dataContainer option" where
  "unmarshalDataContainer data =
     (case data of
        None \<Rightarrow> None
      | Some JNull \<Rightarrow> Some \<lparr>Data = []\<rparr>
      | Some (JObject ms) \<Rightarrow>
          (case decodeStringField ''Data'' ms [] True of
             (s, ok) \<Rightarrow> if ok then Some \<lparr>Data = s\<rparr> else None)
      | Some _ \<Rightarrow> None)"

definition unmarshalDataContainerV1 :: "json option \<Rightarrow> dataContainerV1 option" where
  "unmarshalDataContainerV1 data =
     (case data of
        None \<Rightarrow> None
      | Some JNull \<Rightarrow> Some \<lparr>DataV1 = \<lparr>Data = []\<rparr>\<rparr>
      | Some (JObject ms) \<Rightarrow>
          (case decodeStructField ''Data'' ''Data'' ms [] True of
             (s, ok) \<Rightarrow> if ok then Some \<lparr>DataV1 = \<lparr>Data = s\<rparr>\<rparr> else None)
      | Some _ \<Rightarrow> None)"

subsection \<open>Parsing the major version\<close>

text \<open>
  \<open>strings.Split(v, ".")[0]\<close> is the text before the first dot (the whole text when
  there is none, and the slice is never empty, so the index cannot panic);
  \<open>strings.TrimPrefix(_, "v")\<close> drops one leading \<open>v\<close>.
\<close>

definition splitFirst :: "string \<Rightarrow> string" where
  "splitFirst v = takeWhile (\<lambda>c. c \<noteq> CHR ''.'') v"

definition trimPrefixV :: "string \<Rightarrow> string" where
  "trimPrefixV s = (case s of c # cs \<Rightarrow> if c = CHR ''v'' then cs else s | [] \<Rightarrow> [])"

definition isDigit :: "char \<Rightarrow> bool" where
  "isDigit c = (48 \<le> (of_char c :: nat) \<and> (of_char c :: nat) \<le> 57)"

fun parseDigits :: "string \<Rightarrow> nat \<Rightarrow> nat option" where
  "parseDigits [] acc = Some acc"
| "parseDigits (c # cs) acc =
     (if isDigit c then parseDigits cs (acc * 10 + (of_char c - 48)) else None)"

text \<open>
  \<open>strconv.ParseInt(s, 10, 32)\<close>: an optional sign, then at least one decimal digit
  and nothing else; the value must fit a signed 32-bit integer. \<open>None\<close> is a non-nil
  error (ErrSyntax or ErrRange).
\<close>

definition ParseInt :: "string \<Rightarrow> int option" where
  "ParseInt s =
     (case s of
        [] \<Rightarrow> None
      | c # cs \<Rightarrow>
          (let neg = (c = CHR ''-'');
               body = (if c = CHR ''+'' \<or> c = CHR ''-'' then cs else s)
           in if body = [] then None
              else (case parseDigits body 0 of
                      None \<Rightarrow> None
                    | Some un \<Rightarrow>
                        if \<not> neg \<and> un \<ge> 2 ^ 31 then None
                        else if neg \<and> un > 2 ^ 31 then None
                        else Some (if neg then - int un else int un))))"

subsection \<open>The sniffer and the dispatch (step 3 of RunE)\<close>

datatype qr_error =
    ErrorParsingVersion
  | ErrorDeserializingData
  | ErrorWritingOutput

text \<open>
  Lines 149 to 171: the value of \<open>paperCryptMajorVersion\<close>, or the error returned.
  The conversion \<open>uint32(parseInt)\<close> wraps a negative value.
\<close>

definition sniff :: "json option \<Rightarrow> qr_error + 32 word" where
  "sniff data =
     (case unmarshalVersionContainer data of
        None \<Rightarrow>
          (case unmarshalDataContainer data of
             None \<Rightarrow>
               (case unmarshalDataContainerV1 data of
                  None \<Rightarrow> Inl ErrorDeserializingData
                | Some dcV1 \<Rightarrow> Inr 1)
           | Some dc \<Rightarrow> Inr 2)
      | Some vc \<Rightarrow>
          (case ParseInt (trimPrefixV (splitFirst (Version vc))) of
             None \<Rightarrow> Inl ErrorParsingVersion
           | Some parseInt \<Rightarrow> Inr (word_of_int parseInt)))"

text \<open>
  The document types of package \<open>internal\<close> and their \<open>GetText\<close> are not among the
  sources; they are parameters of the model. \<open>None\<close> is a non-nil error.
\<close>

record ('a, 'b) internal =
  UnmarshalV1 :: "json option \<Rightarrow> 'a option"
  GetTextV1 :: "'a \<Rightarrow> string option"
  UnmarshalV2 :: "json option \<Rightarrow> 'b option"
  GetTextV2 :: "'b \<Rightarrow> string option"

text \<open>
  Lines 173 to 193: the switch has the cases 1 and 2 and no default. For any other
  version \<open>output\<close> keeps its zero value (no bytes) and \<open>err\<close> is still \<open>nil\<close>.
\<close>

definition deserializeV1 :: "('a, 'b) internal \<Rightarrow> json option \<Rightarrow> qr_error + string" where
  "deserializeV1 I data =
     (case UnmarshalV1 I data of
        None \<Rightarrow> Inl ErrorDeserializingData
      | Some pc \<Rightarrow>
          (case GetTextV1 I pc of None \<Rightarrow> Inl ErrorDeserializingData | Some output \<Rightarrow> Inr output))"

definition deserializeV2 :: "('a, 'b) internal \<Rightarrow> json option \<Rightarrow> qr_error + string" where
  "deserializeV2 I data =
     (case UnmarshalV2 I data of
        None \<Rightarrow> Inl ErrorDeserializingData
      | Some pc \<Rightarrow>
          (case GetTextV2 I pc of None \<Rightarrow> Inl ErrorDeserializingData | Some output \<Rightarrow> Inr output))"

definition deserialize :: "('a, 'b) internal \<Rightarrow> 32 word \<Rightarrow> json option \<Rightarrow> qr_error + string" where
  "deserialize I paperCryptMajorVersion data =
     (if paperCryptMajorVersion = 1 then deserializeV1 I data
      else if paperCryptMajorVersion = 2 then deserializeV2 I data
      else Inr [])"

text \<open>Lines 195 to 202: \<open>outFile.Write(output)\<close>, unless an error was returned before.\<close>

definition writeOutput :: "(string \<Rightarrow> bool) \<Rightarrow> qr_error + string \<Rightarrow> qr_error + string" where
  "writeOutput writeOK r =
     (case r of
        Inl e \<Rightarrow> Inl e
      | Inr output \<Rightarrow> if writeOK output then Inr output else Inl ErrorWritingOutput)"

text \<open>
  RunE from the point where the payload has been read and the output file is open.
  \<open>raw\<close> is the payload's bytes and \<open>data\<close> their JSON reading; \<open>writeOK\<close> tells
  whether \<open>outFile.Write\<close> succeeds on the given bytes. \<open>Inr out\<close>: the bytes \<open>out\<close>
  were written and RunE returned \<open>nil\<close>. With \<open>--to-json\<close> the payload is copied out
  and nothing is decoded.
\<close>

definition RunE :: "('a, 'b) internal \<Rightarrow> bool \<Rightarrow> (string \<Rightarrow> bool) \<Rightarrow> string \<Rightarrow> json option \<Rightarrow> qr_error + string" where
  "RunE I qrCmdToJSON writeOK raw data =
     (if qrCmdToJSON then writeOutput writeOK (Inr raw)
      else
        (case sniff data of
           Inl e \<Rightarrow> Inl e
         | Inr paperCryptMajorVersion \<Rightarrow>
             writeOutput writeOK (deserialize I paperCryptMajorVersion data)))"

section \<open>The generate command\<close>

subsection \<open>Flags, environment and effects\<close>

text \<open>The package-level variables that the flags of \<open>generate\<close> set.\<close>

record flags =
  inFileName :: string
  outFileName :: string
  overrideOutFile :: bool
  serialNumber :: string
  purpose :: string
  comment :: string
  date :: string
  outputPdf :: bool
  noQR :: bool
  lowerCasedBase16 :: bool
  asciiArmor :: bool

text \<open>
  What \<open>Run\<close> does to the outside, in order. \<open>Printf\<close> and \<open>Println\<close> carry the format
  string of a call of \<open>fmt.Printf\<close> and \<open>fmt.Println\<close>, without quotation marks and
  without the final newline; the arguments are not modelled. \<open>WriteOut\<close> is
  \<open>outFile.Write\<close>.
\<close>

datatype event =
    Stat string
  | Printf string
  | Println string
  | ReadRandom
  | ReadClock
  | OpenInput string
  | ReadInput
  | ReadStdin
  | Encrypt string string
  | OpenOutput string
  | WriteOut string

text \<open>
  The state that \<open>Run\<close> changes: the files by path (no file has the empty path), the
  unread part of standard input, and the effects so far (oldest first).
\<close>

record world =
  files :: "string \<rightharpoonup> string"
  stdin :: string
  trace :: "event list"

text \<open>
  The call of \<open>util.NewPaperCrypt\<close>. Package \<open>util\<close> is not among the sources, so
  the document is represented by the six arguments that \<open>Run\<close> hands to the
  constructor, in their order; the renderers below take it in this form.
\<close>

record 'm PaperCrypt =
  pcVersion :: string
  pcData :: 'm
  pcSerialNumber :: string
  pcPurpose :: string
  pcComment :: string
  pcCreatedAt :: nat

text \<open>
  What the run takes from outside the command and does not change: the random source
  and the serial alphabet, the clock, \<open>time.Parse\<close>, the JSON decoder and encoder of
  \<open>encoding/json\<close> (\<open>jsonDecode\<close> gives the first JSON value in the bytes of a file,
  \<open>None\<close> on a syntax error or an empty file; \<open>jsonEncode\<close> gives the encoder's output
  for the Go value that a tree decodes to), the encryption primitive, whether a path can
  be opened for writing, the renderers \<open>GetPDF\<close> and \<open>GetText\<close> of package \<open>util\<close>,
  whether a write succeeds, and the build version. Times are counted in nanoseconds.
  \<open>None\<close> is a non-nil error throughout.
\<close>

record 'm system =
  rand :: "nat \<Rightarrow> nat option"
  alphabet :: string
  now :: nat
  timeParse :: "string \<Rightarrow> string \<Rightarrow> nat option"
  jsonDecode :: "string \<Rightarrow> json option"
  jsonEncode :: "json \<Rightarrow> string option"
  EncryptMessageWithPassword :: "string \<Rightarrow> string \<Rightarrow> 'm option"
  canCreate :: "string \<Rightarrow> bool"
  GetPDF :: "'m PaperCrypt \<Rightarrow> bool \<Rightarrow> bool \<Rightarrow> bool \<Rightarrow> string option"
  GetText :: "'m PaperCrypt \<Rightarrow> bool \<Rightarrow> bool \<Rightarrow> string option"
  writeSucceeds :: "string \<Rightarrow> bool"
  VersionInfoVersion :: string

text \<open>
  \<open>Exit c w\<close>: the process ended through \<open>os.Exit(c)\<close> in world \<open>w\<close>.
  \<open>Return w d\<close>: \<open>Run\<close> returned, having built and written the document \<open>d\<close>.
\<close>

datatype 'm outcome = Exit nat world | Return world "'m PaperCrypt"

definition worldOf :: "'m outcome \<Rightarrow> world" where
  "worldOf r = (case r of Exit c w \<Rightarrow> w | Return w d \<Rightarrow> w)"

definition log :: "event \<Rightarrow> world \<Rightarrow> world" where
  "log e w = w\<lparr>trace := trace w @ [e]\<rparr>"

definition fatal :: "string \<Rightarrow> world \<Rightarrow> 'm outcome" where
  "fatal msg w = Exit 1 (log (Printf msg) w)"

subsection \<open>The helpers of the run\<close>

text \<open>
  Modelled from the spec: \<open>util.GenerateSerial\<close> is not among the sources. Section 4.2
  of the specification: \<open>generate(length)\<close> draws \<open>length\<close> characters from a fixed
  alphabet with the random source and signals RandomSourceUnavailable when the source
  cannot be read. \<open>rand i\<close> is the \<open>i\<close>-th draw, \<open>None\<close> when the source cannot be read.
\<close>

definition GenerateSerial :: "string \<Rightarrow> (nat \<Rightarrow> nat option) \<Rightarrow> nat \<Rightarrow> string option" where
  "GenerateSerial abc rnd n =
     (if abc \<noteq> [] \<and> list_all (\<lambda>i. rnd i \<noteq> None) [0..<n]
      then Some (map (\<lambda>i. abc ! (the (rnd i) mod length abc)) [0..<n])
      else None)"

text \<open>
  \<open>jsonDecoder.Decode(&secretContents)\<close> with a target of type
  \<open>map[string]interface{}\<close>: an object fills the map, \<open>null\<close> sets the map to \<open>nil\<close>
  without an error, every other value is an UnmarshalTypeError.
\<close>

definition decodeMap :: "json option \<Rightarrow> json option" where
  "decodeMap v =
     (case v of
        None \<Rightarrow> None
      | Some (JObject ms) \<Rightarrow> Some (JObject ms)
      | Some JNull \<Rightarrow> Some JNull
      | Some _ \<Rightarrow> None)"

text \<open>
  \<open>reader.ReadString\<close> with the newline as delimiter: the text up to and including
  the first newline, and what is left; an error when the input ends before a newline.
\<close>

definition ReadString :: "string \<Rightarrow> (string \<times> string) option" where
  "ReadString inp =
     (if CHR 0x0A \<in> set inp
      then Some (takeWhile (\<lambda>c. c \<noteq> CHR 0x0A) inp @ [CHR 0x0A],
                 tl (dropWhile (\<lambda>c. c \<noteq> CHR 0x0A) inp))
      else None)"

text \<open>\<open>strings.ReplaceAll\<close> of carriage return and of newline by the empty string.\<close>

definition stripNewlines :: "string \<Rightarrow> string" where
  "stripNewlines s = filter (\<lambda>c. c \<noteq> CHR 0x0A) (filter (\<lambda>c. c \<noteq> CHR 0x0D) s)"

subsection \<open>The run, step by step\<close>

text \<open>Lines 155 to 161: the document as PDF or as text.\<close>

definition render :: "'m system \<Rightarrow> flags \<Rightarrow> 'm PaperCrypt \<Rightarrow> string option" where
  "render S F crypt =
     (if outputPdf F then GetPDF S crypt (asciiArmor F) (noQR F) (lowerCasedBase16 F)
      else GetText S crypt (asciiArmor F) (lowerCasedBase16 F))"

text \<open>
  Lines 153 to 176: render the document and write it. \<open>outFile\<close> is \<open>None\<close> for
  standard output. A file opened with \<open>O_TRUNC\<close> holds exactly what was written.
\<close>

definition writeDocument :: "'m system \<Rightarrow> flags \<Rightarrow> string option \<Rightarrow> 'm PaperCrypt \<Rightarrow> world \<Rightarrow> 'm outcome" where
  "writeDocument S F outFile crypt w =
     (case render S F crypt of
        None \<Rightarrow> fatal ''Error creating file contents: %s'' w
      | Some text \<Rightarrow>
          (let w1 = log (WriteOut text) w in
           if writeSucceeds S text then
             Return
               (log (Println ''Done!'')
                 (log (Printf ''Wrote %d bytes to %s'')
                   (case outFile of
                      None \<Rightarrow> w1
                    | Some p \<Rightarrow> w1\<lparr>files := (files w1)(p \<mapsto> text)\<rparr>)))
               crypt
           else fatal ''Error writing file: %s'' w1))"

text \<open>
  Lines 139 to 153: standard output for the names \<open>""\<close> and \<open>"-"\<close>, otherwise the
  file is created or truncated; then the document is built.
\<close>

definition openOutput :: "'m system \<Rightarrow> flags \<Rightarrow> string \<Rightarrow> nat \<Rightarrow> 'm \<Rightarrow> world \<Rightarrow> 'm outcome" where
  "openOutput S F serial timestamp encryptedSecretContents w =
     (let crypt = \<lparr>pcVersion = VersionInfoVersion S, pcData = encryptedSecretContents,
                   pcSerialNumber = serial, pcPurpose = purpose F, pcComment = comment F,
                   pcCreatedAt = timestamp\<rparr>
      in if outFileName F = [] \<or> outFileName F = ''-'' then writeDocument S F None crypt w
         else
           (let w1 = log (OpenOutput (outFileName F)) w in
            if canCreate S (outFileName F)
            then writeDocument S F (Some (outFileName F)) crypt
                   (w1\<lparr>files := (files w1)(outFileName F \<mapsto> [])\<rparr>)
            else fatal ''Error opening file: %s'' w1))"

text \<open>Lines 130 to 137, with function \<open>encrypt\<close> (lines 180 to 189).\<close>

definition encryptContents :: "'m system \<Rightarrow> flags \<Rightarrow> string \<Rightarrow> nat \<Rightarrow> string \<Rightarrow> string \<Rightarrow> world \<Rightarrow> 'm outcome" where
  "encryptContents S F serial timestamp secretContentsMinimal passphrase w =
     (let w1 = log (Encrypt passphrase secretContentsMinimal) w in
      case EncryptMessageWithPassword S secretContentsMinimal passphrase of
        None \<Rightarrow> fatal ''Error encrypting secret contents: %s'' w1
      | Some encryptedSecretContents \<Rightarrow> openOutput S F serial timestamp encryptedSecretContents w1)"

text \<open>Lines 106 to 128: the passphrase is read twice and compared as read.\<close>

definition readPassphrase :: "'m system \<Rightarrow> flags \<Rightarrow> string \<Rightarrow> nat \<Rightarrow> string \<Rightarrow> world \<Rightarrow> 'm outcome" where
  "readPassphrase S F serial timestamp secretContentsMinimal w =
     (let w1 = log (Println ''Enter your encryption passphrase (i.e. the key phrase from `papercrypt generateKey`): '') w in
      case ReadString (stdin w1) of
        None \<Rightarrow> fatal ''Error reading passphrase: %s'' (log ReadStdin w1)
      | Some (passphrase, rest) \<Rightarrow>
          (let w2 = log (Println ''Enter your encryption passphrase again: '')
                      ((log ReadStdin w1)\<lparr>stdin := rest\<rparr>)
           in case ReadString rest of
                None \<Rightarrow> fatal ''Error reading passphrase: %s'' (log ReadStdin w2)
              | Some (passphraseAgain, rest') \<Rightarrow>
                  (let w3 = (log ReadStdin w2)\<lparr>stdin := rest'\<rparr> in
                   if passphrase \<noteq> passphraseAgain
                   then fatal ''Passphrases do not match! Aborting.'' w3
                   else encryptContents S F serial timestamp secretContentsMinimal
                          (stripNewlines passphrase) w3)))"

text \<open>Lines 84 to 104: the input file is decoded as JSON and encoded again.\<close>

definition readInput :: "'m system \<Rightarrow> flags \<Rightarrow> string \<Rightarrow> nat \<Rightarrow> world \<Rightarrow> 'm outcome" where
  "readInput S F serial timestamp w =
     (let w1 = log (OpenInput (inFileName F)) w in
      case files w1 (inFileName F) of
        None \<Rightarrow> fatal ''Error opening file: %s'' w1
      | Some bytes \<Rightarrow>
          (let w2 = log ReadInput w1 in
           case decodeMap (jsonDecode S bytes) of
             None \<Rightarrow> fatal ''Error decoding JSON: %s'' w2
           | Some secretContents \<Rightarrow>
               (case jsonEncode S secretContents of
                  None \<Rightarrow> fatal ''Error encoding JSON: %s'' w2
                | Some secretContentsMinimal \<Rightarrow>
                    readPassphrase S F serial timestamp secretContentsMinimal w2)))"

text \<open>Lines 64 to 82: the clock when no date is given, otherwise three layouts in turn.\<close>

definition parseDate :: "'m system \<Rightarrow> flags \<Rightarrow> string \<Rightarrow> world \<Rightarrow> 'm outcome" where
  "parseDate S F serial w =
     (if date F = [] then readInput S F serial (now S) (log ReadClock w)
      else
        (case timeParse S ''Mon, 02 Jan 2006 15:04:05.000000000 MST'' (date F) of
           Some timestamp \<Rightarrow> readInput S F serial timestamp w
         | None \<Rightarrow>
             (case timeParse S ''2006-01-02 15:04:05'' (date F) of
                Some timestamp \<Rightarrow> readInput S F serial timestamp w
              | None \<Rightarrow>
                  (case timeParse S ''2006-01-02'' (date F) of
                     Some timestamp \<Rightarrow> readInput S F serial timestamp w
                   | None \<Rightarrow> fatal ''Error parsing date: %s'' w))))"

text \<open>Lines 54 to 62: a serial number of six characters when none is given.\<close>

definition makeSerial :: "'m system \<Rightarrow> flags \<Rightarrow> world \<Rightarrow> 'm outcome" where
  "makeSerial S F w =
     (if serialNumber F = [] then
        (let w1 = log ReadRandom w in
         case GenerateSerial (alphabet S) (rand S) 6 of
           None \<Rightarrow> fatal ''Error generating serial number: %s'' w1
         | Some serial \<Rightarrow> parseDate S F serial w1)
      else parseDate S F (serialNumber F) w)"

text \<open>
  Lines 43 to 52, and from there the whole of \<open>Run\<close>: \<open>os.Stat\<close> succeeds exactly on
  the paths that hold a file. The run starts with an empty trace.
\<close>

definition Run :: "'m system \<Rightarrow> flags \<Rightarrow> (string \<rightharpoonup> string) \<Rightarrow> string \<Rightarrow> 'm outcome" where
  "Run S F files0 stdin0 =
     (let w = log (Stat (outFileName F)) \<lparr>files = files0, stdin = stdin0, trace = []\<rparr> in
      if files w (outFileName F) \<noteq> None then
        (if overrideOutFile F
         then makeSerial S F (log (Printf ''Overriding existing file %s!'') w)
         else fatal ''File %s already exists, use --force to override'' w)
      else makeSerial S F w)"

section \<open>Vocabulary of the properties\<close>

subsection \<open>Shapes of a payload\<close>

definition isString :: "json \<Rightarrow> bool" where
  "isString v = (case v of JString s \<Rightarrow> True | _ \<Rightarrow> False)"

definition stringOf :: "json \<Rightarrow> string" where
  "stringOf v = (case v of JString s \<Rightarrow> s | _ \<Rightarrow> [])"

definition isObject :: "json \<Rightarrow> bool" where
  "isObject v = (case v of JObject ms \<Rightarrow> True | _ \<Rightarrow> False)"

text \<open>The values of the members of an object that the decoder takes for field \<open>name\<close>.\<close>

definition fieldValues :: "string \<Rightarrow> (string \<times> json) list \<Rightarrow> json list" where
  "fieldValues name ms = map snd (filter (\<lambda>m. matches name (fst m)) ms)"


text \<open>
  The string that an object carries in its top-level field \<open>name\<close>: the last string
  among the members taken for the field, if there is one.
\<close>

definition topLevelString :: "string \<Rightarrow> json option \<Rightarrow> string option" where
  "topLevelString name data =
     (case data of
        Some (JObject ms) \<Rightarrow>
          (case filter isString (fieldValues name ms) of
             [] \<Rightarrow> None
           | s # ss \<Rightarrow> Some (stringOf (last (s # ss))))
      | _ \<Rightarrow> None)"

text \<open>
  The three rules of the sniffer as the specification words them. Rule 1: a top-level
  version string whose major component parses as an integer. Rule 2: a flat \<open>Data\<close>
  string. Rule 3: a \<open>Data\<close> object that holds a \<open>Data\<close> string.
\<close>

definition explicitVersion :: "json option \<Rightarrow> int option" where
  "explicitVersion data =
     (case topLevelString ''Version'' data of
        None \<Rightarrow> None
      | Some v \<Rightarrow> ParseInt (trimPrefixV (splitFirst v)))"

definition flatShape :: "json option \<Rightarrow> bool" where
  "flatShape data = (topLevelString ''Data'' data \<noteq> None)"

definition nestedShape :: "json option \<Rightarrow> bool" where
  "nestedShape data =
     (case data of
        Some (JObject ms) \<Rightarrow>
          list_ex (\<lambda>v. topLevelString ''Data'' (Some v) \<noteq> None) (fieldValues ''Data'' ms)
      | _ \<Rightarrow> False)"


subsection \<open>The deserializers of package internal\<close>


subsection \<open>Outcomes and traces of generate\<close>

text \<open>The exit status of the process; a run that returns ends with status 0.\<close>

definition exitStatus :: "'m outcome \<Rightarrow> nat" where
  "exitStatus r = (case r of Exit c w \<Rightarrow> c | Return w d \<Rightarrow> 0)"

definition documentOf :: "'m outcome \<Rightarrow> 'm PaperCrypt option" where
  "documentOf r = (case r of Exit c w \<Rightarrow> None | Return w d \<Rightarrow> Some d)"

text \<open>The effects that encrypt, or that create, open or write the output.\<close>

definition affectsOutput :: "event \<Rightarrow> bool" where
  "affectsOutput e =
     (case e of Encrypt p d \<Rightarrow> True | OpenOutput p \<Rightarrow> True | WriteOut t \<Rightarrow> True | _ \<Rightarrow> False)"

text \<open>Every encryption in a trace is of a plaintext with property \<open>P\<close>.\<close>

definition plainOK :: "(string \<Rightarrow> bool) \<Rightarrow> event \<Rightarrow> bool" where
  "plainOK P e = (case e of Encrypt pass plain \<Rightarrow> P plain | _ \<Rightarrow> True)"

text \<open>
  The input file can be opened and its first JSON value decodes into the map, that is,
  it is an object or \<open>null\<close>.
\<close>

definition inputDecodes :: "'m system \<Rightarrow> flags \<Rightarrow> (string \<rightharpoonup> string) \<Rightarrow> bool" where
  "inputDecodes S F fs =
     (case fs (inFileName F) of
        None \<Rightarrow> False
      | Some bytes \<Rightarrow> decodeMap (jsonDecode S bytes) \<noteq> None)"

text \<open>\<open>plain\<close> is the encoder's output for the object, or the \<open>null\<close>, read from the input file.\<close>

definition reencoded :: "'m system \<Rightarrow> flags \<Rightarrow> (string \<rightharpoonup> string) \<Rightarrow> string \<Rightarrow> bool" where
  "reencoded S F fs plain =
     (case fs (inFileName F) of
        None \<Rightarrow> False
      | Some bytes \<Rightarrow>
          (case jsonDecode S bytes of
             None \<Rightarrow> False
           | Some j \<Rightarrow> (isObject j \<or> j = JNull) \<and> jsonEncode S j = Some plain))"

text \<open>
  A run step \<open>r\<close> started in world \<open>w\<close> ends in \<open>os.Exit(1)\<close>, leaves the files alone
  and adds effects with property \<open>Q\<close>.
\<close>

definition aborts :: "world \<Rightarrow> 'm outcome \<Rightarrow> (event list \<Rightarrow> bool) \<Rightarrow> bool" where
  "aborts w r Q =
     (\<exists>w' evs. r = Exit 1 w' \<and> files w' = files w \<and> trace w' = trace w @ evs \<and> Q evs)"

text \<open>The trace of world \<open>w\<close> is \<open>tr\<close> followed by effects that all have property \<open>A\<close>.\<close>

definition reaches :: "event list \<Rightarrow> (event \<Rightarrow> bool) \<Rightarrow> world \<Rightarrow> bool" where
  "reaches tr A w = (\<exists>evs. trace w = tr @ evs \<and> list_all A evs)"

text \<open>
  What a run that returns has made: the document \<open>d\<close> with the given serial number and
  timestamp, and the rendered text in the output file (no file for standard output).
\<close>

definition produced :: "'m system \<Rightarrow> flags \<Rightarrow> (string \<rightharpoonup> string) \<Rightarrow> string \<Rightarrow> nat \<Rightarrow> world \<Rightarrow> 'm PaperCrypt \<Rightarrow> bool" where
  "produced S F fs serial timestamp w d =
     (pcSerialNumber d = serial \<and> pcCreatedAt d = timestamp \<and> pcPurpose d = purpose F
      \<and> pcComment d = comment F \<and> pcVersion d = VersionInfoVersion S
      \<and> (\<exists>text. render S F d = Some text
            \<and> files w = (if outFileName F = [] \<or> outFileName F = ''-'' then fs
                         else fs(outFileName F \<mapsto> text))))"

text \<open>The effects of a run in which the two passphrases differ.\<close>

definition mismatchTrace :: "event list \<Rightarrow> bool" where
  "mismatchTrace evs =
     (list_all (\<lambda>e. \<not> affectsOutput e) evs
      \<and> (ReadStdin \<in> set evs \<longrightarrow> last evs = Printf ''Passphrases do not match! Aborting.''))"

text \<open>
  The effects that can come before the passphrase prompt: no \<open>fmt.Println\<close> (the
  prompts are the first calls of it), no read of standard input, nothing that encrypts
  or touches the output.
\<close>

definition beforePrompt :: "event \<Rightarrow> bool" where
  "beforePrompt e =
     (case e of Println m \<Rightarrow> False | ReadStdin \<Rightarrow> False | _ \<Rightarrow> \<not> affectsOutput e)"

text \<open>
  The effects that can come before the date is settled: no clock reading, no read of
  the input file or of standard input, nothing that encrypts or touches the output.
\<close>

definition beforeDate :: "event \<Rightarrow> bool" where
  "beforeDate e =
     (case e of ReadClock \<Rightarrow> False | OpenInput p \<Rightarrow> False | ReadInput \<Rightarrow> False
        | ReadStdin \<Rightarrow> False | _ \<Rightarrow> \<not> affectsOutput e)"

subsection \<open>Fixtures\<close>


definition fixtureSystem :: "string system" where
  "fixtureSystem =
     \<lparr>rand = (\<lambda>i. Some i),
      alphabet = ''ABCDEFGH'',
      now = 1704067200,
      timeParse = (\<lambda>layout v. if layout = ''2006-01-02'' \<and> v = ''2023-12-24''
                               then Some 1703376000 else None),
      jsonDecode = (\<lambda>bytes. if bytes = ''{}'' then Some (JObject [])
                             else if bytes = ''null'' then Some JNull
                             else if bytes = ''[]'' then Some (JArray [])
                             else None),
      jsonEncode = (\<lambda>j. if j = JObject [] then Some (''{}'' @ [CHR 0x0A])
                         else if j = JNull then Some (''null'' @ [CHR 0x0A])
                         else None),
      EncryptMessageWithPassword = (\<lambda>plain pass. Some (''enc:'' @ plain)),
      canCreate = (\<lambda>p. True),
      GetPDF = (\<lambda>d armor qr lower. None),
      GetText = (\<lambda>d armor lower. Some (pcSerialNumber d @ '':'' @ pcData d)),
      writeSucceeds = (\<lambda>t. True),
      VersionInfoVersion = ''dev''\<rparr>"

definition fixtureFlags :: flags where
  "fixtureFlags =
     \<lparr>inFileName = ''in.json'', outFileName = ''out.txt'', overrideOutFile = False,
      serialNumber = [], purpose = ''test'', comment = [], date = [],
      outputPdf = False, noQR = False, lowerCasedBase16 = False, asciiArmor = False\<rparr>"

definition fixtureFiles :: "string \<rightharpoonup> string" where
  "fixtureFiles = [''in.json'' \<mapsto> ''{}'']"

definition fixtureStdin :: string where
  "fixtureStdin = ''secret'' @ [CHR 0x0A] @ ''secret'' @ [CHR 0x0A]"

definition fixtureDocument :: "string PaperCrypt" where
  "fixtureDocument =
     \<lparr>pcVersion = ''dev'', pcData = ''enc:{}'' @ [CHR 0x0A], pcSerialNumber = ''ABCDEF'',
      pcPurpose = ''test'', pcComment = [], pcCreatedAt = 1704067200\<rparr>"

section \<open>Facts about the decoder and the sniffer\<close>













lemmas shape_defs = explicitVersion_def topLevelString_def fieldValues_def isString_def
  stringOf_def

lemmas sniff_defs = sniff_def unmarshalVersionContainer_def unmarshalDataContainer_def
  unmarshalDataContainerV1_def matches_def splitFirst_def trimPrefixV_def ParseInt_def
  isDigit_def upperASCII_def

section \<open>Facts about the run of generate\<close>

subsection \<open>Worlds and outcomes\<close>

lemma files_log [simp]: "files (log e w) = files w"
  and stdin_log [simp]: "stdin (log e w) = stdin w"
  and trace_log [simp]: "trace (log e w) = trace w @ [e]"
  by (simp_all add: log_def)

lemma worldOf_simps [simp]: "worldOf (Exit c w) = w" "worldOf (Return w d) = w" "worldOf (fatal m w) = log (Printf m) w"
  by (simp_all add: worldOf_def fatal_def)

lemma fatal_not_Return [simp]: "fatal m w \<noteq> Return w' d"
  by (simp add: fatal_def)

subsection \<open>A run that returns\<close>

lemma writeDocument_Return:
  "writeDocument S F outFile crypt w = Return w' d \<Longrightarrow>
   d = crypt \<and> (\<exists>text. render S F crypt = Some text
       \<and> files w' = (case outFile of None \<Rightarrow> files w | Some p \<Rightarrow> (files w)(p \<mapsto> text)))"
  by (auto simp: writeDocument_def Let_def split: option.splits if_splits)

lemma openOutput_Return:
  "openOutput S F serial timestamp enc w = Return w' d \<Longrightarrow> produced S F (files w) serial timestamp w' d"
  by (auto simp: openOutput_def Let_def produced_def split: if_splits dest!: writeDocument_Return)

lemma encryptContents_Return:
  "encryptContents S F serial timestamp plain pass w = Return w' d \<Longrightarrow> produced S F (files w) serial timestamp w' d"
  by (auto simp: encryptContents_def Let_def split: option.splits dest!: openOutput_Return)

lemma readPassphrase_Return:
  "readPassphrase S F serial timestamp plain w = Return w' d \<Longrightarrow> produced S F (files w) serial timestamp w' d"
  by (auto simp: readPassphrase_def Let_def split: option.splits if_splits dest!: encryptContents_Return)

lemma readInput_Return:
  "readInput S F serial timestamp w = Return w' d \<Longrightarrow> produced S F (files w) serial timestamp w' d"
  by (auto simp: readInput_def Let_def split: option.splits dest!: readPassphrase_Return)

lemma parseDate_Return:
  "parseDate S F serial w = Return w' d \<Longrightarrow>
   \<exists>timestamp. produced S F (files w) serial timestamp w' d \<and> (date F = [] \<longrightarrow> timestamp = now S)"
  by (auto simp: parseDate_def split: option.splits if_splits dest!: readInput_Return)

lemma makeSerial_Return:
  "makeSerial S F w = Return w' d \<Longrightarrow>
   \<exists>serial timestamp. produced S F (files w) serial timestamp w' d
     \<and> (date F = [] \<longrightarrow> timestamp = now S)
     \<and> (serialNumber F = [] \<longrightarrow> GenerateSerial (alphabet S) (rand S) 6 = Some serial)
     \<and> (serialNumber F \<noteq> [] \<longrightarrow> serial = serialNumber F)"
  by (auto simp: makeSerial_def Let_def split: option.splits if_splits dest!: parseDate_Return)

lemma Run_Return:
  assumes "Run S F files0 stdin0 = Return w' d"
  shows "\<exists>serial timestamp. produced S F files0 serial timestamp w' d
     \<and> (date F = [] \<longrightarrow> timestamp = now S)
     \<and> (serialNumber F = [] \<longrightarrow> GenerateSerial (alphabet S) (rand S) 6 = Some serial)
     \<and> (serialNumber F \<noteq> [] \<longrightarrow> serial = serialNumber F)
     \<and> (files0 (outFileName F) \<noteq> None \<longrightarrow> overrideOutFile F)"
proof -
  from assms have force: "files0 (outFileName F) \<noteq> None \<longrightarrow> overrideOutFile F"
    by (auto simp: Run_def Let_def split: if_splits)
  let ?w0 = "log (Stat (outFileName F)) \<lparr>files = files0, stdin = stdin0, trace = []\<rparr>"
  from assms have "makeSerial S F ?w0 = Return w' d
      \<or> makeSerial S F (log (Printf ''Overriding existing file %s!'') ?w0) = Return w' d"
    by (simp add: Run_def Let_def split: if_splits)
  then obtain w where w: "files w = files0" "makeSerial S F w = Return w' d"
  proof
    assume "makeSerial S F ?w0 = Return w' d"
    then show ?thesis by (rule that [rotated]) simp
  next
    assume "makeSerial S F (log (Printf ''Overriding existing file %s!'') ?w0) = Return w' d"
    then show ?thesis by (rule that [rotated]) simp
  qed
  from makeSerial_Return [OF w(2)] w(1) force show ?thesis
    by simp
qed


subsection \<open>A run that exits\<close>

lemma aborts_fatal: "Q [Printf msg] \<Longrightarrow> aborts w (fatal msg w) Q"
  by (simp add: aborts_def fatal_def)

lemma aborts_log: "aborts (log e w) r Q \<Longrightarrow> (\<And>evs. Q evs \<Longrightarrow> Q (e # evs)) \<Longrightarrow> aborts w r Q"
  by (auto simp: aborts_def)

lemma aborts_result:
  "aborts w r Q \<Longrightarrow>
   exitStatus r = 1 \<and> documentOf r = None \<and> files (worldOf r) = files w
   \<and> (\<exists>evs. trace (worldOf r) = trace w @ evs \<and> Q evs)"
  by (auto simp: aborts_def exitStatus_def documentOf_def)

lemma readInput_aborts:
  assumes cont: "\<And>plain w'. files w' = files w \<Longrightarrow> stdin w' = stdin w \<Longrightarrow>
      aborts w' (readPassphrase S F serial timestamp plain w') Q"
    and stable: "\<And>p evs. Q evs \<Longrightarrow> Q (OpenInput p # evs)" "\<And>evs. Q evs \<Longrightarrow> Q (ReadInput # evs)"
    and msg: "\<And>m. Q [Printf m]"
  shows "aborts w (readInput S F serial timestamp w) Q"
proof -
  have fat: "aborts v (fatal m v) Q" for m v
    by (rule aborts_fatal) (rule msg)
  let ?w1 = "log (OpenInput (inFileName F)) w"
  let ?w2 = "log ReadInput ?w1"
  have lift1: "aborts ?w1 r Q \<Longrightarrow> aborts w r Q" for r
    by (erule aborts_log) (rule stable)
  have lift2: "aborts ?w2 r Q \<Longrightarrow> aborts w r Q" for r
    by (rule lift1, erule aborts_log) (rule stable)
  have a: "aborts w (fatal m ?w1) Q" for m
    by (rule lift1 [OF fat])
  have b: "aborts w (fatal m ?w2) Q" for m
    by (rule lift2 [OF fat])
  have c: "aborts w (readPassphrase S F serial timestamp plain ?w2) Q" for plain
    by (rule lift2 [OF cont]) simp_all
  show ?thesis
    by (simp add: readInput_def Let_def a b c split: option.splits)
qed

lemma parseDate_aborts:
  assumes cont: "\<And>timestamp w'. files w' = files w \<Longrightarrow> stdin w' = stdin w \<Longrightarrow>
      aborts w' (readInput S F serial timestamp w') Q"
    and stable: "\<And>evs. Q evs \<Longrightarrow> Q (ReadClock # evs)"
    and msg: "\<And>m. Q [Printf m]"
  shows "aborts w (parseDate S F serial w) Q"
proof -
  have fat: "aborts v (fatal m v) Q" for m v
    by (rule aborts_fatal) (rule msg)
  have a: "aborts w (readInput S F serial t w) Q" for t
    by (rule cont) simp_all
  have b: "aborts w (readInput S F serial t (log ReadClock w)) Q" for t
    by (rule aborts_log [OF cont]) (simp_all add: stable)
  show ?thesis
    by (simp add: parseDate_def a b fat split: option.splits)
qed

lemma makeSerial_aborts:
  assumes cont: "\<And>serial w'. files w' = files w \<Longrightarrow> stdin w' = stdin w \<Longrightarrow>
      aborts w' (parseDate S F serial w') Q"
    and stable: "\<And>evs. Q evs \<Longrightarrow> Q (ReadRandom # evs)"
    and msg: "\<And>m. Q [Printf m]"
  shows "aborts w (makeSerial S F w) Q"
proof -
  have fat: "aborts v (fatal m v) Q" for m v
    by (rule aborts_fatal) (rule msg)
  have a: "aborts w (parseDate S F s w) Q" for s
    by (rule cont) simp_all
  have b: "aborts w (parseDate S F s (log ReadRandom w)) Q" for s
    by (rule aborts_log [OF cont]) (simp_all add: stable)
  have c: "aborts w (fatal m (log ReadRandom w)) Q" for m
    by (rule aborts_log [OF fat]) (rule stable)
  show ?thesis
    by (simp add: makeSerial_def Let_def a b c split: option.splits)
qed

lemma Run_aborts:
  assumes cont: "\<And>w'. files w' = files0 \<Longrightarrow> stdin w' = stdin0 \<Longrightarrow> aborts w' (makeSerial S F w') Q"
    and stable: "\<And>p evs. Q evs \<Longrightarrow> Q (Stat p # evs)" "\<And>m evs. Q evs \<Longrightarrow> Q (Printf m # evs)"
    and msg: "\<And>m. Q [Printf m]"
  shows "aborts \<lparr>files = files0, stdin = stdin0, trace = []\<rparr> (Run S F files0 stdin0) Q"
proof -
  have fat: "aborts v (fatal m v) Q" for m v
    by (rule aborts_fatal) (rule msg)
  let ?w = "\<lparr>files = files0, stdin = stdin0, trace = []\<rparr>"
  let ?w1 = "log (Stat (outFileName F)) ?w"
  have lift1: "aborts ?w1 r Q \<Longrightarrow> aborts ?w r Q" for r
    by (erule aborts_log) (rule stable)
  have a: "aborts ?w (makeSerial S F ?w1) Q"
    by (rule lift1 [OF cont]) simp_all
  have b: "aborts ?w (makeSerial S F (log (Printf m) ?w1)) Q" for m
    by (rule lift1 [OF aborts_log [OF cont]]) (simp_all add: stable)
  have c: "aborts ?w (fatal m ?w1) Q" for m
    by (rule lift1 [OF fat])
  show ?thesis
    by (simp add: Run_def Let_def a b c)
qed


lemma parseDate_fails:
  assumes "date F \<noteq> []"
    "timeParse S ''Mon, 02 Jan 2006 15:04:05.000000000 MST'' (date F) = None"
    "timeParse S ''2006-01-02 15:04:05'' (date F) = None"
    "timeParse S ''2006-01-02'' (date F) = None"
    and msg: "\<And>m. Q [Printf m]"
  shows "aborts w (parseDate S F serial w) Q"
proof -
  have "aborts w (fatal m w) Q" for m
    by (rule aborts_fatal) (rule msg)
  with assms(1-4) show ?thesis
    by (simp add: parseDate_def)
qed

lemma readInput_fails:
  assumes "\<not> inputDecodes S F (files w)"
    and stable: "\<And>p evs. Q evs \<Longrightarrow> Q (OpenInput p # evs)" "\<And>evs. Q evs \<Longrightarrow> Q (ReadInput # evs)"
    and msg: "\<And>m. Q [Printf m]"
  shows "aborts w (readInput S F serial timestamp w) Q"
proof -
  let ?w1 = "log (OpenInput (inFileName F)) w"
  have fat: "aborts v (fatal m v) Q" for m v
    by (rule aborts_fatal) (rule msg)
  have lift1: "aborts ?w1 r Q \<Longrightarrow> aborts w r Q" for r
    by (erule aborts_log) (rule stable)
  have a: "aborts w (fatal m ?w1) Q" for m
    by (rule lift1 [OF fat])
  have b: "aborts w (fatal m (log ReadInput ?w1)) Q" for m
    by (rule lift1, rule aborts_log [OF fat]) (rule stable)
  from assms(1) show ?thesis
    by (auto simp: readInput_def Let_def inputDecodes_def a b split: option.splits)
qed

lemma mismatchTrace_Cons:
  "mismatchTrace evs \<Longrightarrow> \<not> affectsOutput e \<Longrightarrow> e \<noteq> ReadStdin \<Longrightarrow> mismatchTrace (e # evs)"
  by (auto simp: mismatchTrace_def)

lemma mismatchTrace_Print: "mismatchTrace [Printf msg]"
  by (simp add: mismatchTrace_def affectsOutput_def)

lemma readPassphrase_mismatch:
  assumes "ReadString (stdin w) = Some (p1, rest)" "ReadString rest = Some (p2, rest')" "p1 \<noteq> p2"
  shows "aborts w (readPassphrase S F serial timestamp plain w) mismatchTrace"
  using assms
  by (simp add: readPassphrase_def aborts_def fatal_def Let_def mismatchTrace_def affectsOutput_def)

lemma Run_mismatch:
  assumes "ReadString stdin0 = Some (p1, rest)" "ReadString rest = Some (p2, rest')" "p1 \<noteq> p2"
  shows "aborts \<lparr>files = files0, stdin = stdin0, trace = []\<rparr> (Run S F files0 stdin0) mismatchTrace"
proof (rule Run_aborts)
  fix w' :: world
  assume w': "files w' = files0" "stdin w' = stdin0"
  show "aborts w' (makeSerial S F w') mismatchTrace"
  proof (rule makeSerial_aborts)
    fix serial and w1 :: world
    assume w1: "files w1 = files w'" "stdin w1 = stdin w'"
    show "aborts w1 (parseDate S F serial w1) mismatchTrace"
    proof (rule parseDate_aborts)
      fix timestamp and w2 :: world
      assume w2: "files w2 = files w1" "stdin w2 = stdin w1"
      show "aborts w2 (readInput S F serial timestamp w2) mismatchTrace"
      proof (rule readInput_aborts)
        fix plain and w3 :: world
        assume w3: "files w3 = files w2" "stdin w3 = stdin w2"
        with w2 w1 w' assms(1) have "ReadString (stdin w3) = Some (p1, rest)"
          by simp
        then show "aborts w3 (readPassphrase S F serial timestamp plain w3) mismatchTrace"
          using assms(2,3) by (rule readPassphrase_mismatch)
      qed (simp_all add: mismatchTrace_Cons mismatchTrace_Print affectsOutput_def)
    qed (simp_all add: mismatchTrace_Cons mismatchTrace_Print affectsOutput_def)
  qed (simp_all add: mismatchTrace_Cons mismatchTrace_Print affectsOutput_def)
qed (simp_all add: mismatchTrace_Cons mismatchTrace_Print affectsOutput_def)


lemma Run_date_fails:
  assumes "date F \<noteq> []"
    "timeParse S ''Mon, 02 Jan 2006 15:04:05.000000000 MST'' (date F) = None"
    "timeParse S ''2006-01-02 15:04:05'' (date F) = None"
    "timeParse S ''2006-01-02'' (date F) = None"
  shows "aborts \<lparr>files = files0, stdin = stdin0, trace = []\<rparr> (Run S F files0 stdin0)
           (list_all beforeDate)"
proof (rule Run_aborts)
  fix w' :: world
  show "aborts w' (makeSerial S F w')
     (list_all beforeDate)"
  proof (rule makeSerial_aborts)
    fix serial and w1 :: world
    show "aborts w1 (parseDate S F serial w1)
       (list_all beforeDate)"
      using assms by (rule parseDate_fails) (simp_all add: affectsOutput_def beforeDate_def)
  qed (simp_all add: affectsOutput_def beforeDate_def)
qed (simp_all add: affectsOutput_def beforeDate_def)

lemma Run_input_fails:
  assumes "\<not> inputDecodes S F files0"
  shows "aborts \<lparr>files = files0, stdin = stdin0, trace = []\<rparr> (Run S F files0 stdin0)
           (list_all beforePrompt)"
proof (rule Run_aborts)
  fix w' :: world
  assume w': "files w' = files0" "stdin w' = stdin0"
  show "aborts w' (makeSerial S F w')
     (list_all beforePrompt)"
  proof (rule makeSerial_aborts)
    fix serial and w1 :: world
    assume w1: "files w1 = files w'" "stdin w1 = stdin w'"
    show "aborts w1 (parseDate S F serial w1)
       (list_all beforePrompt)"
    proof (rule parseDate_aborts)
      fix timestamp and w2 :: world
      assume w2: "files w2 = files w1" "stdin w2 = stdin w1"
      with w1 w' assms have "\<not> inputDecodes S F (files w2)"
        by simp
      then show "aborts w2 (readInput S F serial timestamp w2)
         (list_all beforePrompt)"
        by (rule readInput_fails) (simp_all add: affectsOutput_def beforePrompt_def)
    qed (simp_all add: affectsOutput_def beforePrompt_def)
  qed (simp_all add: affectsOutput_def beforePrompt_def)
qed (simp_all add: affectsOutput_def beforePrompt_def)

subsection \<open>What a trace can hold\<close>

lemma reaches_log: "reaches tr A w \<Longrightarrow> A e \<Longrightarrow> reaches tr A (log e w)"
  by (auto simp: reaches_def)

lemma reaches_update [simp]:
  "reaches tr A (w\<lparr>files := f\<rparr>) = reaches tr A w"
  "reaches tr A (w\<lparr>stdin := i\<rparr>) = reaches tr A w"
  by (simp_all add: reaches_def)

lemma plainOK_simps [simp]:
  "plainOK P (Stat p)" "plainOK P (Printf m)" "plainOK P (Println m)" "plainOK P ReadRandom"
  "plainOK P ReadClock" "plainOK P (OpenInput p)" "plainOK P ReadInput" "plainOK P ReadStdin"
  "plainOK P (OpenOutput p)" "plainOK P (WriteOut t)" "plainOK P (Encrypt pass plain) = P plain"
  by (simp_all add: plainOK_def)

lemma writeDocument_reaches:
  "reaches tr (plainOK P) w \<Longrightarrow> reaches tr (plainOK P) (worldOf (writeDocument S F outFile crypt w))"
  by (auto simp: writeDocument_def Let_def split: option.splits intro!: reaches_log)

lemma openOutput_reaches:
  "reaches tr (plainOK P) w \<Longrightarrow> reaches tr (plainOK P) (worldOf (openOutput S F serial timestamp enc w))"
  by (auto simp: openOutput_def Let_def intro!: writeDocument_reaches reaches_log)

lemma encryptContents_reaches:
  "reaches tr (plainOK P) w \<Longrightarrow> P plain \<Longrightarrow>
   reaches tr (plainOK P) (worldOf (encryptContents S F serial timestamp plain pass w))"
  by (auto simp: encryptContents_def Let_def split: option.splits intro!: openOutput_reaches reaches_log)

lemma readPassphrase_reaches:
  "reaches tr (plainOK P) w \<Longrightarrow> P plain \<Longrightarrow>
   reaches tr (plainOK P) (worldOf (readPassphrase S F serial timestamp plain w))"
  by (auto simp: readPassphrase_def Let_def split: option.splits intro!: encryptContents_reaches reaches_log)

lemma readInput_reaches:
  "files w = fs \<Longrightarrow> reaches tr (plainOK (reencoded S F fs)) w \<Longrightarrow>
   reaches tr (plainOK (reencoded S F fs)) (worldOf (readInput S F serial timestamp w))"
  by (auto simp: readInput_def Let_def reencoded_def decodeMap_def isObject_def
      split: option.splits json.splits intro!: readPassphrase_reaches reaches_log)

lemma parseDate_reaches:
  "files w = fs \<Longrightarrow> reaches tr (plainOK (reencoded S F fs)) w \<Longrightarrow>
   reaches tr (plainOK (reencoded S F fs)) (worldOf (parseDate S F serial w))"
  by (auto simp: parseDate_def split: option.splits intro!: readInput_reaches reaches_log)

lemma makeSerial_reaches:
  "files w = fs \<Longrightarrow> reaches tr (plainOK (reencoded S F fs)) w \<Longrightarrow>
   reaches tr (plainOK (reencoded S F fs)) (worldOf (makeSerial S F w))"
  by (auto simp: makeSerial_def Let_def split: option.splits intro!: parseDate_reaches reaches_log)

lemma Run_reaches:
  "reaches [] (plainOK (reencoded S F files0)) (worldOf (Run S F files0 stdin0))"
  by (auto simp: Run_def Let_def reaches_def [of "[]" _ "\<lparr>files = files0, stdin = stdin0, trace = []\<rparr>"]
      intro!: makeSerial_reaches reaches_log)

lemma Run_encrypts:
  "Encrypt pass plain \<in> set (trace (worldOf (Run S F files0 stdin0))) \<Longrightarrow> reencoded S F files0 plain"
  using Run_reaches [of S F files0 stdin0]
  by (auto simp: reaches_def list_all_iff plainOK_def split: event.splits)

subsection \<open>The fixture runs\<close>

lemmas run_defs = Run_def makeSerial_def parseDate_def readInput_def readPassphrase_def
  encryptContents_def openOutput_def writeDocument_def render_def fatal_def log_def Let_def
  decodeMap_def ReadString_def stripNewlines_def

lemmas fixture_defs = fixtureSystem_def fixtureFlags_def fixtureFiles_def fixtureStdin_def
  fixtureDocument_def

lemma fixture_serial: "GenerateSerial ''ABCDEFGH'' (\<lambda>i. Some i) 6 = Some ''ABCDEF''"
  by code_simp

lemma fixture_run:
  "Run fixtureSystem fixtureFlags fixtureFiles fixtureStdin =
     Return
       \<lparr>files = fixtureFiles(''out.txt'' \<mapsto> ''ABCDEF:enc:{}'' @ [CHR 0x0A]), stdin = [],
        trace = [Stat ''out.txt'', ReadRandom, ReadClock, OpenInput ''in.json'', ReadInput,
          Println ''Enter your encryption passphrase (i.e. the key phrase from `papercrypt generateKey`): '',
          ReadStdin, Println ''Enter your encryption passphrase again: '', ReadStdin,
          Encrypt ''secret'' (''{}'' @ [CHR 0x0A]), OpenOutput ''out.txt'',
          WriteOut (''ABCDEF:enc:{}'' @ [CHR 0x0A]), Printf ''Wrote %d bytes to %s'',
          Println ''Done!'']\<rparr>
       fixtureDocument"
  by (simp add: run_defs fixture_defs fixture_serial)

lemma fixture_bad_date:
  "timeParse fixtureSystem layout ''tomorrow'' = None"
  by (simp add: fixtureSystem_def)



lemma fixture_mismatch_reads:
  "ReadStdin \<in> set (trace (worldOf (Run fixtureSystem fixtureFlags fixtureFiles
      (''secret'' @ [CHR 0x0A] @ ''secreT'' @ [CHR 0x0A]))))"
  by (simp add: run_defs fixture_defs fixture_serial worldOf_def)

lemma fixture_array_refused: "\<not> inputDecodes fixtureSystem fixtureFlags [''in.json'' \<mapsto> ''[]'']"
  by (simp add: inputDecodes_def decodeMap_def fixtureSystem_def fixtureFlags_def)

lemma fixture_forced:
  "Run fixtureSystem (fixtureFlags\<lparr>overrideOutFile := True\<rparr>) (fixtureFiles(''out.txt'' \<mapsto> ''old''))
       fixtureStdin =
     Return
       \<lparr>files = fixtureFiles(''out.txt'' \<mapsto> ''ABCDEF:enc:{}'' @ [CHR 0x0A]), stdin = [],
        trace = [Stat ''out.txt'', Printf ''Overriding existing file %s!'', ReadRandom, ReadClock,
          OpenInput ''in.json'', ReadInput,
          Println ''Enter your encryption passphrase (i.e. the key phrase from `papercrypt generateKey`): '',
          ReadStdin, Println ''Enter your encryption passphrase again: '', ReadStdin,
          Encrypt ''secret'' (''{}'' @ [CHR 0x0A]), OpenOutput ''out.txt'',
          WriteOut (''ABCDEF:enc:{}'' @ [CHR 0x0A]), Printf ''Wrote %d bytes to %s'',
          Println ''Done!'']\<rparr>
       fixtureDocument"
  by (simp add: run_defs fixture_defs fixture_serial)

subsection \<open>Reading an outcome\<close>

lemma documentOf_Some: "documentOf r = Some d \<Longrightarrow> \<exists>w. r = Return w d"
  by (cases r) (simp_all add: documentOf_def)

lemma Run_aborts_result:
  assumes "aborts \<lparr>files = files0, stdin = stdin0, trace = []\<rparr> (Run S F files0 stdin0) (list_all A)"
  shows "exitStatus (Run S F files0 stdin0) = 1 \<and> documentOf (Run S F files0 stdin0) = None
       \<and> files (worldOf (Run S F files0 stdin0)) = files0
       \<and> list_all A (trace (worldOf (Run S F files0 stdin0)))"
  using aborts_result [OF assms] by auto

section \<open>The claims\<close>




text \<open>
  Claim C2: a payload that is not classified through a version field is tried as a flat
  \<open>Data\<close> string (major version 2) and then as nested \<open>Data.Data\<close> (major version 1).
  The code does not do so for a payload without a version field: decoding into the
  version container succeeds with an empty version, the empty text does not parse as
  an integer, and the command returns the error of the version parse although the flat
  attempt alone would have succeeded.
\<close>

theorem qr_flat_without_version:
  "flatShape (Some (JObject [(''Data'', JString ''abc'')]))
   \<and> explicitVersion (Some (JObject [(''Data'', JString ''abc'')])) = None
   \<and> unmarshalDataContainer (Some (JObject [(''Data'', JString ''abc'')])) = Some \<lparr>Data = ''abc''\<rparr>
   \<and> RunE I False writeOK raw (Some (JObject [(''Data'', JString ''abc'')])) = Inl ErrorParsingVersion"
  by (simp add: flatShape_def shape_defs RunE_def sniff_defs)

text \<open>
  Claim C3: a payload of the generation-1 shape without a version field is classified as
  major version 1 and decodes. The code returns the error of the version parse for
  such a payload and never reaches the nested attempt, which alone would have
  succeeded.
\<close>

theorem qr_nested_without_version:
  "nestedShape (Some (JObject [(''Data'', JObject [(''Data'', JString ''abc'')])]))
   \<and> explicitVersion (Some (JObject [(''Data'', JObject [(''Data'', JString ''abc'')])])) = None
   \<and> unmarshalDataContainerV1 (Some (JObject [(''Data'', JObject [(''Data'', JString ''abc'')])]))
       = Some \<lparr>DataV1 = \<lparr>Data = ''abc''\<rparr>\<rparr>
   \<and> RunE I False writeOK raw (Some (JObject [(''Data'', JObject [(''Data'', JString ''abc'')])]))
       = Inl ErrorParsingVersion"
  by (simp add: nestedShape_def shape_defs RunE_def sniff_defs)



text \<open>
  Claim C5: a version field that parses as a major version for which there is no
  deserializer makes the command fail. The code has no default case in its switch: for
  version 3.0.0 it writes no bytes and returns \<open>nil\<close>.
\<close>

theorem qr_unknown_major:
  "explicitVersion (Some (JObject [(''Version'', JString ''3.0.0'')])) = Some 3
   \<and> sniff (Some (JObject [(''Version'', JString ''3.0.0'')])) = Inr 3
   \<and> RunE I False (\<lambda>out. True) raw (Some (JObject [(''Version'', JString ''3.0.0'')])) = Inr []"
  by (simp add: shape_defs RunE_def sniff_defs deserialize_def writeOutput_def)

text \<open>
  Claim C6: without a date the timestamp of the document is the clock reading; with a date
  that matches none of the three layouts the command exits with status 1, builds no
  document, leaves the files alone and has read neither the clock nor the input.
\<close>

theorem generate_timestamp:
  "(date F = [] \<and> documentOf (Run S F files0 stdin0) = Some d \<longrightarrow> pcCreatedAt d = now S)
   \<and> (date F \<noteq> []
        \<and> timeParse S ''Mon, 02 Jan 2006 15:04:05.000000000 MST'' (date F) = None
        \<and> timeParse S ''2006-01-02 15:04:05'' (date F) = None
        \<and> timeParse S ''2006-01-02'' (date F) = None
      \<longrightarrow> exitStatus (Run S F files0 stdin0) = 1
        \<and> documentOf (Run S F files0 stdin0) = None
        \<and> files (worldOf (Run S F files0 stdin0)) = files0
        \<and> list_all beforeDate (trace (worldOf (Run S F files0 stdin0))))"
proof (intro conjI impI)
  assume "date F = [] \<and> documentOf (Run S F files0 stdin0) = Some d"
  then obtain w where "date F = []" "Run S F files0 stdin0 = Return w d"
    using documentOf_Some by blast
  with Run_Return [of S F files0 stdin0 w d] show "pcCreatedAt d = now S"
    by (auto simp: produced_def)
next
  assume a: "date F \<noteq> []
        \<and> timeParse S ''Mon, 02 Jan 2006 15:04:05.000000000 MST'' (date F) = None
        \<and> timeParse S ''2006-01-02 15:04:05'' (date F) = None
        \<and> timeParse S ''2006-01-02'' (date F) = None"
  then have "aborts \<lparr>files = files0, stdin = stdin0, trace = []\<rparr> (Run S F files0 stdin0)
      (list_all beforeDate)"
    by (intro Run_date_fails) simp_all
  from Run_aborts_result [OF this]
  show "exitStatus (Run S F files0 stdin0) = 1" "documentOf (Run S F files0 stdin0) = None"
    "files (worldOf (Run S F files0 stdin0)) = files0"
    "list_all beforeDate (trace (worldOf (Run S F files0 stdin0)))"
    by simp_all
qed

theorem generate_timestamp_witness:
  "date fixtureFlags = []
   \<and> documentOf (Run fixtureSystem fixtureFlags fixtureFiles fixtureStdin) = Some fixtureDocument
   \<and> pcCreatedAt fixtureDocument = now fixtureSystem
   \<and> exitStatus (Run fixtureSystem (fixtureFlags\<lparr>date := ''tomorrow''\<rparr>) fixtureFiles fixtureStdin) = 1
   \<and> documentOf (Run fixtureSystem (fixtureFlags\<lparr>date := ''tomorrow''\<rparr>) fixtureFiles fixtureStdin) = None"
proof -
  have d: "date fixtureFlags = []"
    by (simp add: fixtureFlags_def)
  have r: "documentOf (Run fixtureSystem fixtureFlags fixtureFiles fixtureStdin) = Some fixtureDocument"
    by (simp add: fixture_run documentOf_def)
  from generate_timestamp [of fixtureFlags fixtureSystem fixtureFiles fixtureStdin fixtureDocument]
    generate_timestamp [of "fixtureFlags\<lparr>date := ''tomorrow''\<rparr>" fixtureSystem fixtureFiles fixtureStdin fixtureDocument]
    d r fixture_bad_date
  show ?thesis
    by simp
qed



text \<open>
  Claim C8: when the two passphrases read from standard input differ, the command exits
  with status 1 and builds no document; it has not encrypted and has not opened or
  written the output, the files are as before, and once it has read the passphrases its
  last message is that they do not match.
\<close>

theorem generate_passphrase_mismatch:
  assumes "ReadString stdin0 = Some (passphrase, rest)"
    and "ReadString rest = Some (passphraseAgain, rest')"
    and "passphrase \<noteq> passphraseAgain"
  shows "exitStatus (Run S F files0 stdin0) = 1
       \<and> documentOf (Run S F files0 stdin0) = None
       \<and> files (worldOf (Run S F files0 stdin0)) = files0
       \<and> list_all (\<lambda>e. \<not> affectsOutput e) (trace (worldOf (Run S F files0 stdin0)))
       \<and> (ReadStdin \<in> set (trace (worldOf (Run S F files0 stdin0)))
            \<longrightarrow> last (trace (worldOf (Run S F files0 stdin0)))
                  = Printf ''Passphrases do not match! Aborting.'')"
  using aborts_result [OF Run_mismatch [OF assms, of files0 S F]]
  by (auto simp: mismatchTrace_def)

theorem generate_passphrase_mismatch_witness:
  "ReadString (''secret'' @ [CHR 0x0A] @ ''secreT'' @ [CHR 0x0A])
     = Some (''secret'' @ [CHR 0x0A], ''secreT'' @ [CHR 0x0A])
   \<and> ReadString (''secreT'' @ [CHR 0x0A]) = Some (''secreT'' @ [CHR 0x0A], [])
   \<and> ''secret'' @ [CHR 0x0A] \<noteq> ''secreT'' @ [CHR 0x0A]
   \<and> exitStatus (Run fixtureSystem fixtureFlags fixtureFiles
        (''secret'' @ [CHR 0x0A] @ ''secreT'' @ [CHR 0x0A])) = 1
   \<and> files (worldOf (Run fixtureSystem fixtureFlags fixtureFiles
        (''secret'' @ [CHR 0x0A] @ ''secreT'' @ [CHR 0x0A]))) = fixtureFiles
   \<and> last (trace (worldOf (Run fixtureSystem fixtureFlags fixtureFiles
        (''secret'' @ [CHR 0x0A] @ ''secreT'' @ [CHR 0x0A]))))
       = Printf ''Passphrases do not match! Aborting.''"
proof -
  have a: "ReadString (''secret'' @ [CHR 0x0A] @ ''secreT'' @ [CHR 0x0A])
     = Some (''secret'' @ [CHR 0x0A], ''secreT'' @ [CHR 0x0A])"
    by (simp add: ReadString_def)
  have b: "ReadString (''secreT'' @ [CHR 0x0A]) = Some (''secreT'' @ [CHR 0x0A], [])"
    by (simp add: ReadString_def)
  have c: "''secret'' @ [CHR 0x0A] \<noteq> ''secreT'' @ [CHR 0x0A]"
    by simp
  from generate_passphrase_mismatch [OF a b c, of fixtureSystem fixtureFlags fixtureFiles]
    fixture_mismatch_reads a b c
  show ?thesis
    by simp
qed

text \<open>
  Claim C9, as far as the code bears it out: every plaintext handed to the encryption is
  the encoder's output for the value read from the input file, and that value is an
  object or \<open>null\<close>; a run that builds a document has an input that decodes; an input
  that cannot be opened or does not decode (a syntax error, or a value that is neither
  an object nor \<open>null\<close>) makes the command exit with status 1 before the passphrase
  prompt and before any encryption.
\<close>

theorem generate_plaintext:
  "(Encrypt pass plain \<in> set (trace (worldOf (Run S F files0 stdin0))) \<longrightarrow> reencoded S F files0 plain)
   \<and> (documentOf (Run S F files0 stdin0) = Some d \<longrightarrow> inputDecodes S F files0)
   \<and> (\<not> inputDecodes S F files0
      \<longrightarrow> exitStatus (Run S F files0 stdin0) = 1
        \<and> documentOf (Run S F files0 stdin0) = None
        \<and> files (worldOf (Run S F files0 stdin0)) = files0
        \<and> list_all beforePrompt (trace (worldOf (Run S F files0 stdin0))))"
proof -
  have fails: "exitStatus (Run S F files0 stdin0) = 1
        \<and> documentOf (Run S F files0 stdin0) = None
        \<and> files (worldOf (Run S F files0 stdin0)) = files0
        \<and> list_all beforePrompt (trace (worldOf (Run S F files0 stdin0)))"
    if "\<not> inputDecodes S F files0"
    by (rule Run_aborts_result [OF Run_input_fails [OF that]])
  have acc: "inputDecodes S F files0" if "documentOf (Run S F files0 stdin0) = Some d"
  proof (rule ccontr)
    assume "\<not> inputDecodes S F files0"
    from fails [OF this] that show False
      by simp
  qed
  from fails acc Run_encrypts [of pass plain S F files0 stdin0] show ?thesis
    by blast
qed

text \<open>
  Claim C9 as it is worded does not hold: an input file holding \<open>null\<close> is not a JSON
  object, yet the run returns with status 0 and has encrypted the text \<open>null\<close>.
\<close>

theorem generate_plaintext_witness:
  "Encrypt ''secret'' (''{}'' @ [CHR 0x0A])
      \<in> set (trace (worldOf (Run fixtureSystem fixtureFlags fixtureFiles fixtureStdin)))
   \<and> reencoded fixtureSystem fixtureFlags fixtureFiles (''{}'' @ [CHR 0x0A])
   \<and> documentOf (Run fixtureSystem fixtureFlags fixtureFiles fixtureStdin) = Some fixtureDocument
   \<and> inputDecodes fixtureSystem fixtureFlags fixtureFiles
   \<and> \<not> inputDecodes fixtureSystem fixtureFlags [''in.json'' \<mapsto> ''[]'']
   \<and> exitStatus (Run fixtureSystem fixtureFlags [''in.json'' \<mapsto> ''[]''] fixtureStdin) = 1
   \<and> list_all beforePrompt
        (trace (worldOf (Run fixtureSystem fixtureFlags [''in.json'' \<mapsto> ''[]''] fixtureStdin)))"
proof -
  have e: "Encrypt ''secret'' (''{}'' @ [CHR 0x0A])
      \<in> set (trace (worldOf (Run fixtureSystem fixtureFlags fixtureFiles fixtureStdin)))"
    by (simp add: fixture_run)
  have r: "documentOf (Run fixtureSystem fixtureFlags fixtureFiles fixtureStdin) = Some fixtureDocument"
    by (simp add: fixture_run documentOf_def)
  from generate_plaintext [of "''secret''" "''{}'' @ [CHR 0x0A]" fixtureSystem fixtureFlags
      fixtureFiles fixtureStdin fixtureDocument]
    generate_plaintext [of "''secret''" "''{}'' @ [CHR 0x0A]" fixtureSystem fixtureFlags
      "[''in.json'' \<mapsto> ''[]'']" fixtureStdin fixtureDocument]
    e r fixture_array_refused
  show ?thesis
    by simp
qed

theorem generate_accepts_null:
  "jsonDecode fixtureSystem ''null'' = Some JNull
   \<and> \<not> isObject JNull
   \<and> exitStatus (Run fixtureSystem fixtureFlags [''in.json'' \<mapsto> ''null''] fixtureStdin) = 0
   \<and> documentOf (Run fixtureSystem fixtureFlags [''in.json'' \<mapsto> ''null''] fixtureStdin)
       = Some (fixtureDocument\<lparr>pcData := ''enc:null'' @ [CHR 0x0A]\<rparr>)
   \<and> Encrypt ''secret'' (''null'' @ [CHR 0x0A])
       \<in> set (trace (worldOf (Run fixtureSystem fixtureFlags [''in.json'' \<mapsto> ''null''] fixtureStdin)))"
  by (simp add: run_defs fixture_defs fixture_serial isObject_def exitStatus_def documentOf_def
      worldOf_def)

text \<open>
  Claim C10: when the output file exists and \<open>--force\<close> is not set, the command exits with
  status 1 right after the \<open>os.Stat\<close> and its message, with the files as they were and
  the input unread; the content of the existing file changes only under \<open>--force\<close>, and
  a forced run that returns leaves exactly the rendered document in it.
\<close>

theorem generate_existing_output:
  assumes "files0 (outFileName F) = Some old"
  shows "(\<not> overrideOutFile F \<longrightarrow>
            Run S F files0 stdin0 =
              Exit 1 \<lparr>files = files0, stdin = stdin0,
                      trace = [Stat (outFileName F),
                               Printf ''File %s already exists, use --force to override'']\<rparr>)
       \<and> (files (worldOf (Run S F files0 stdin0)) (outFileName F) \<noteq> Some old \<longrightarrow> overrideOutFile F)
       \<and> (overrideOutFile F \<and> outFileName F \<noteq> [] \<and> outFileName F \<noteq> ''-''
            \<and> documentOf (Run S F files0 stdin0) = Some d
          \<longrightarrow> render S F d \<noteq> None
            \<and> files (worldOf (Run S F files0 stdin0)) = files0(outFileName F := render S F d))"
proof -
  have a: "Run S F files0 stdin0 =
      Exit 1 \<lparr>files = files0, stdin = stdin0,
              trace = [Stat (outFileName F),
                       Printf ''File %s already exists, use --force to override'']\<rparr>"
    if "\<not> overrideOutFile F"
    using assms that by (simp add: Run_def fatal_def log_def)
  have b: "overrideOutFile F"
    if "files (worldOf (Run S F files0 stdin0)) (outFileName F) \<noteq> Some old"
  proof (rule ccontr)
    assume "\<not> overrideOutFile F"
    from a [OF this] that assms show False
      by simp
  qed
  have c: "render S F d \<noteq> None
      \<and> files (worldOf (Run S F files0 stdin0)) = files0(outFileName F := render S F d)"
    if "outFileName F \<noteq> []" "outFileName F \<noteq> ''-''" "documentOf (Run S F files0 stdin0) = Some d"
  proof -
    from that(3) obtain w where w: "Run S F files0 stdin0 = Return w d"
      using documentOf_Some by blast
    from Run_Return [OF w] that(1,2) w show ?thesis
      by (auto simp: produced_def)
  qed
  from a b c show ?thesis
    by blast
qed

theorem generate_existing_output_witness:
  "(fixtureFiles(''out.txt'' \<mapsto> ''old'')) (outFileName fixtureFlags) = Some ''old''
   \<and> \<not> overrideOutFile fixtureFlags
   \<and> Run fixtureSystem fixtureFlags (fixtureFiles(''out.txt'' \<mapsto> ''old'')) fixtureStdin =
       Exit 1 \<lparr>files = fixtureFiles(''out.txt'' \<mapsto> ''old''), stdin = fixtureStdin,
               trace = [Stat ''out.txt'',
                        Printf ''File %s already exists, use --force to override'']\<rparr>
   \<and> files (worldOf (Run fixtureSystem (fixtureFlags\<lparr>overrideOutFile := True\<rparr>)
        (fixtureFiles(''out.txt'' \<mapsto> ''old'')) fixtureStdin)) ''out.txt''
       = Some (''ABCDEF:enc:{}'' @ [CHR 0x0A])"
proof -
  have o: "(fixtureFiles(''out.txt'' \<mapsto> ''old'')) (outFileName fixtureFlags) = Some ''old''"
    "(fixtureFiles(''out.txt'' \<mapsto> ''old'')) (outFileName (fixtureFlags\<lparr>overrideOutFile := True\<rparr>)) = Some ''old''"
    by (simp_all add: fixtureFlags_def)
  have f: "\<not> overrideOutFile fixtureFlags" "outFileName fixtureFlags = ''out.txt''"
    by (simp_all add: fixtureFlags_def)
  have r: "render fixtureSystem (fixtureFlags\<lparr>overrideOutFile := True\<rparr>) fixtureDocument
      = Some (''ABCDEF:enc:{}'' @ [CHR 0x0A])"
    by (simp add: render_def fixture_defs)
  from generate_existing_output [of "fixtureFiles(''out.txt'' \<mapsto> ''old'')" fixtureFlags "''old''"
      fixtureSystem fixtureStdin fixtureDocument]
    generate_existing_output [of "fixtureFiles(''out.txt'' \<mapsto> ''old'')"
      "fixtureFlags\<lparr>overrideOutFile := True\<rparr>" "''old''" fixtureSystem fixtureStdin fixtureDocument]
    o f r fixture_forced
  show ?thesis
    by (simp add: documentOf_def)
qed

end
